theory Spec2Isabelle
  imports Main "HOL-Library.Sublist"
begin

section \<open>Python values and exceptions\<close>

text \<open>
  The values that \<^verbatim>\<open>response.json()\<close> can hand to the component: \<^verbatim>\<open>None\<close>, booleans,
  integers, floats, strings, lists and dictionaries with string keys. Floats are carried
  around but never inspected by the component, so their type is a parameter \<open>'f\<close>.
  A dictionary is an association list in insertion order (a Python dictionary has no
  repeated key; the JSON parser has already collapsed them).
  A Python \<^verbatim>\<open>str\<close> is a \<open>string\<close>; the component only concatenates strings, tests them
  for emptiness and tests a prefix.
\<close>

datatype 'f pyval =
    PNone
  | PBool bool
  | PInt int
  | PFloat 'f
  | PStr string
  | PList "'f pyval list"
  | PDict "(string \<times> 'f pyval) list"

text \<open>
  The two handlers of \<^verbatim>\<open>_list_states\<close> tell exceptions apart by class only:
  \<^verbatim>\<open>requests.exceptions.RequestException\<close> (with its subclasses \<^verbatim>\<open>ConnectionError\<close>,
  \<^verbatim>\<open>Timeout\<close>, \<^verbatim>\<open>HTTPError\<close>, ...) and every other instance of \<^verbatim>\<open>Exception\<close>.
  The string is \<^verbatim>\<open>str(e)\<close>. A function that can raise returns \<open>exn + 'a\<close>, with \<open>Inl\<close>
  for the exception. Signals that are no instance of \<^verbatim>\<open>Exception\<close>
  (\<^verbatim>\<open>KeyboardInterrupt\<close>, \<^verbatim>\<open>SystemExit\<close>) are not modelled.
\<close>

datatype exn = RequestException string | OtherException string

fun exn_str :: "exn \<Rightarrow> string" where
  "exn_str (RequestException m) = m"
| "exn_str (OtherException m) = m"

fun type_name :: "'f pyval \<Rightarrow> string" where
  "type_name PNone = ''NoneType''"
| "type_name (PBool _) = ''bool''"
| "type_name (PInt _) = ''int''"
| "type_name (PFloat _) = ''float''"
| "type_name (PStr _) = ''str''"
| "type_name (PList _) = ''list''"
| "type_name (PDict _) = ''dict''"

text \<open>\<^verbatim>\<open>AttributeError\<close> and \<^verbatim>\<open>TypeError\<close> as CPython words them.\<close>

definition attribute_error :: "'f pyval \<Rightarrow> string \<Rightarrow> exn" where
  "attribute_error v attr =
     OtherException ([CHR 0x27] @ type_name v @ [CHR 0x27] @ '' object has no attribute ''
                     @ [CHR 0x27] @ attr @ [CHR 0x27])"

definition not_iterable :: "'f pyval \<Rightarrow> exn" where
  "not_iterable v =
     OtherException ([CHR 0x27] @ type_name v @ [CHR 0x27] @ '' object is not iterable'')"

text \<open>\<^verbatim>\<open>d.get(k, default)\<close>\<close>

definition dict_get :: "(string \<times> 'f pyval) list \<Rightarrow> string \<Rightarrow> 'f pyval \<Rightarrow> 'f pyval" where
  "dict_get kvs k dflt = (case map_of kvs k of None \<Rightarrow> dflt | Some v \<Rightarrow> v)"

text \<open>
  \<^verbatim>\<open>for st in all_states\<close>: a list yields its items, a dictionary its keys, a string its
  characters as one-character strings; anything else raises \<^verbatim>\<open>TypeError\<close>.
\<close>

fun py_iter :: "'f pyval \<Rightarrow> exn + 'f pyval list" where
  "py_iter (PList xs) = Inr xs"
| "py_iter (PDict kvs) = Inr (map (\<lambda>kv. PStr (fst kv)) kvs)"
| "py_iter (PStr s) = Inr (map (\<lambda>c. PStr [c]) s)"
| "py_iter v = Inl (not_iterable v)"

section \<open>The HTTP client\<close>

datatype http_verb = GET | POST

record http_request =
  verb :: http_verb
  url :: string
  headers :: "(string \<times> string) list"
  timeout :: nat

text \<open>
  A response as the component reads it: the status line, the final URL, and what
  \<^verbatim>\<open>response.json()\<close> does (return the parsed body or raise).
\<close>

record 'f response =
  status_code :: nat
  reason :: string
  response_url :: string
  json :: "exn + 'f pyval"

text \<open>
  The network is a parameter: what \<^verbatim>\<open>requests.get\<close> does with a request, either raising
  or returning a response.
\<close>

type_synonym 'f network = "http_request \<Rightarrow> exn + 'f response"

function str_nat :: "nat \<Rightarrow> string" where
  "str_nat n =
     (if n < 10 then [char_of (48 + n)] else str_nat (n div 10) @ [char_of (48 + n mod 10)])"
  by pat_completeness auto
termination
  by (relation "measure id") auto

declare str_nat.simps [simp del]

text \<open>
  \<^verbatim>\<open>Response.raise_for_status()\<close> of the requests library (\<^verbatim>\<open>models.py\<close>): an
  \<^verbatim>\<open>HTTPError\<close>, which is a \<^verbatim>\<open>RequestException\<close>, for a status from 400 to 599 and
  nothing otherwise, so a status below 400 outside 2xx passes.
\<close>

definition raise_for_status :: "'f response \<Rightarrow> exn option" where
  "raise_for_status r =
     (if 400 \<le> status_code r \<and> status_code r < 500 then
        Some (RequestException (str_nat (status_code r) @ '' Client Error: '' @ reason r
                                @ '' for url: '' @ response_url r))
      else if 500 \<le> status_code r \<and> status_code r < 600 then
        Some (RequestException (str_nat (status_code r) @ '' Server Error: '' @ reason r
                                @ '' for url: '' @ response_url r))
      else None)"

section \<open>ListHomeAssistantStates\<close>

text \<open>The component instance: the three inputs entered in the UI.\<close>

record component =
  ha_token :: string
  base_url :: string
  filter_domain :: "string option"

text \<open>
  The condition of the list comprehension,
  \<^verbatim>\<open>st.get("entity_id", "").startswith(f"{filter_domain}.")\<close>, with the
  \<^verbatim>\<open>AttributeError\<close> of an item that is no dictionary and of an \<^verbatim>\<open>entity_id\<close> that is
  no string.
\<close>

definition keep_state :: "string \<Rightarrow> 'f pyval \<Rightarrow> exn + bool" where
  "keep_state d st =
     (case st of
        PDict kvs \<Rightarrow>
          (case dict_get kvs ''entity_id'' (PStr '''') of
             PStr s \<Rightarrow> Inr (prefix (d @ ''.'') s)
           | v \<Rightarrow> Inl (attribute_error v ''startswith''))
      | v \<Rightarrow> Inl (attribute_error v ''get''))"

text \<open>The comprehension: items in order, the first exception ends it.\<close>

fun filter_states :: "string \<Rightarrow> 'f pyval list \<Rightarrow> exn + 'f pyval list" where
  "filter_states d [] = Inr []"
| "filter_states d (st # rest) =
     (case keep_state d st of
        Inl e \<Rightarrow> Inl e
      | Inr b \<Rightarrow>
          (case filter_states d rest of
             Inl e \<Rightarrow> Inl e
           | Inr ys \<Rightarrow> Inr (if b then st # ys else ys)))"

text \<open>The one request \<^verbatim>\<open>_list_states\<close> builds (lines 101 to 106).\<close>

definition states_request :: "string \<Rightarrow> string \<Rightarrow> http_request" where
  "states_request ha_token' base_url' =
     \<lparr>verb = GET,
      url = base_url' @ ''/api/states'',
      headers = [(''Authorization'', ''Bearer '' @ ha_token'),
                 (''Content-Type'', ''application/json'')],
      timeout = 10\<rparr>"

text \<open>
  The body of the \<^verbatim>\<open>try\<close> of \<^verbatim>\<open>_list_states\<close>. The second component is the list of
  the requests handed to \<^verbatim>\<open>requests.get\<close>, in order.
\<close>

definition list_states_try ::
  "'f network \<Rightarrow> string \<Rightarrow> string \<Rightarrow> string \<Rightarrow> (exn + 'f pyval) \<times> http_request list" where
  "list_states_try net ha_token' base_url' filter_domain' =
     ((case net (states_request ha_token' base_url') of
         Inl e \<Rightarrow> Inl e
       | Inr response \<Rightarrow>
           (case raise_for_status response of
              Some e \<Rightarrow> Inl e
            | None \<Rightarrow>
                (case json response of
                   Inl e \<Rightarrow> Inl e
                 | Inr all_states \<Rightarrow>
                     if filter_domain' \<noteq> [] then
                       (case py_iter all_states of
                          Inl e \<Rightarrow> Inl e
                        | Inr items \<Rightarrow>
                            (case filter_states filter_domain' items of
                               Inl e \<Rightarrow> Inl e
                             | Inr filtered \<Rightarrow> Inr (PList filtered)))
                     else Inr all_states))),
      [states_request ha_token' base_url'])"

text \<open>\<^verbatim>\<open>_list_states\<close>: the \<^verbatim>\<open>try\<close> with its two handlers.\<close>

definition list_states ::
  "'f network \<Rightarrow> string \<Rightarrow> string \<Rightarrow> string \<Rightarrow> (exn + 'f pyval) \<times> http_request list" where
  "list_states net ha_token' base_url' filter_domain' =
     (case list_states_try net ha_token' base_url' filter_domain' of
        (Inl (RequestException e), trace) \<Rightarrow>
          (Inr (PStr (''Error: Failed to fetch states. '' @ e)), trace)
      | (Inl (OtherException e), trace) \<Rightarrow>
          (Inr (PStr (''An unexpected error occurred: '' @ e)), trace)
      | (Inr v, trace) \<Rightarrow> (Inr v, trace))"

text \<open>
  \<^verbatim>\<open>_list_states_for_tool\<close>: the agent passes \<^verbatim>\<open>filter_domain\<close> or leaves it out
  (\<open>None\<close>: the default \<^verbatim>\<open>""\<close> of the parameter).
\<close>

definition list_states_for_tool ::
  "'f network \<Rightarrow> component \<Rightarrow> string option \<Rightarrow> (exn + 'f pyval) \<times> http_request list" where
  "list_states_for_tool net self arg =
     list_states net (ha_token self) (base_url self)
       (case arg of None \<Rightarrow> '''' | Some filter_domain' \<Rightarrow> filter_domain')"

text \<open>
  Modelled from the spec: the class \<^verbatim>\<open>Data\<close> of the host framework
  (\<^verbatim>\<open>langflow.schema\<close>), which is not among the source files. It is the ResultEnvelope
  of section 3: a payload mapping, passed as \<^verbatim>\<open>data=\<close>, and a text, passed as
  \<^verbatim>\<open>text=\<close>.
\<close>

record 'f Data =
  data :: "(string \<times> 'f pyval) list"
  "text" :: string

text \<open>
  \<^verbatim>\<open>_make_data_response\<close>. The parameter \<open>json_dumps\<close> stands for
  \<^verbatim>\<open>json.dumps(_, indent=2, ensure_ascii=False)\<close> of the standard library, which returns
  the rendering or raises; the \<^verbatim>\<open>isinstance\<close> tests are tried in the order list,
  dict, str.
\<close>

definition make_data_response_try :: "('f pyval \<Rightarrow> exn + string) \<Rightarrow> 'f pyval \<Rightarrow> exn + 'f Data" where
  "make_data_response_try json_dumps result =
     (case result of
        PList xs \<Rightarrow>
          (case json_dumps (PDict [(''result'', result)]) of
             Inl e \<Rightarrow> Inl e
           | Inr s \<Rightarrow> Inr \<lparr>data = [(''result'', result)], text = s\<rparr>)
      | PDict kvs \<Rightarrow>
          (case json_dumps result of
             Inl e \<Rightarrow> Inl e
           | Inr s \<Rightarrow> Inr \<lparr>data = kvs, text = s\<rparr>)
      | PStr s \<Rightarrow> Inr \<lparr>data = [], text = s\<rparr>
      | _ \<Rightarrow> Inr \<lparr>data = [], text = ''Error: Unexpected response format.''\<rparr>)"

definition make_data_response :: "('f pyval \<Rightarrow> exn + string) \<Rightarrow> 'f pyval \<Rightarrow> exn + 'f Data" where
  "make_data_response json_dumps result =
     (case make_data_response_try json_dumps result of
        Inl e \<Rightarrow>
          Inr \<lparr>data = [], text = ''Error: Failed to process response. Details: '' @ exn_str e\<rparr>
      | Inr d \<Rightarrow> Inr d)"

text \<open>\<^verbatim>\<open>x or ""\<close> on an optional string: \<^verbatim>\<open>None\<close> and the empty string are falsy.\<close>

definition or_empty :: "string option \<Rightarrow> string" where
  "or_empty x = (case x of None \<Rightarrow> '''' | Some s \<Rightarrow> if s \<noteq> [] then s else '''')"

text \<open>\<^verbatim>\<open>run_model\<close>, with \<^verbatim>\<open>filter_domain = self.filter_domain or ""\<close>.\<close>

definition run_model ::
  "'f network \<Rightarrow> ('f pyval \<Rightarrow> exn + string) \<Rightarrow> component \<Rightarrow> (exn + 'f Data) \<times> http_request list" where
  "run_model net json_dumps self =
     (case list_states net (ha_token self) (base_url self) (or_empty (filter_domain self)) of
        (Inl e, trace) \<Rightarrow> (Inl e, trace)
      | (Inr result, trace) \<Rightarrow> (make_data_response json_dumps result, trace))"

text \<open>The declared inputs (lines 25 to 44) and the schema shown to the agent.\<close>

record input_attrs =
  name :: string
  display_name :: string
  info :: string
  required :: bool

datatype input = SecretStrInput input_attrs | StrInput input_attrs

fun attrs :: "input \<Rightarrow> input_attrs" where
  "attrs (SecretStrInput a) = a"
| "attrs (StrInput a) = a"

definition inputs :: "input list" where
  "inputs =
     [SecretStrInput \<lparr>name = ''ha_token'', display_name = ''Home Assistant Token'',
        info = ''Home Assistant Long-Lived Access Token'', required = True\<rparr>,
      StrInput \<lparr>name = ''base_url'', display_name = ''Home Assistant URL'',
        info = ''e.g., http://192.168.0.10:8123'', required = True\<rparr>,
      StrInput \<lparr>name = ''filter_domain'', display_name = ''Default Filter Domain (Optional)'',
        info = ''light, switch, sensor, etc. (Leave empty to fetch all)'', required = False\<rparr>]"

record schema_field =
  field_name :: string
  field_default :: string
  field_description :: string

definition ToolSchema :: "schema_field list" where
  "ToolSchema =
     [\<lparr>field_name = ''filter_domain'', field_default = '''',
       field_description = ''Filter domain (e.g., '' @ [CHR 0x27] @ ''light'' @ [CHR 0x27]
                           @ ''). If empty, returns all.''\<rparr>]"

record 'f structured_tool =
  tool_name :: string
  tool_description :: string
  func :: "'f network \<Rightarrow> string option \<Rightarrow> (exn + 'f pyval) \<times> http_request list"
  args_schema :: "schema_field list"

definition build_tool :: "component \<Rightarrow> 'f structured_tool" where
  "build_tool self =
     \<lparr>tool_name = ''list_homeassistant_states'',
      tool_description = ''Retrieve states from Home Assistant. You can provide filter_domain=''
        @ [CHR 0x27] @ ''light'' @ [CHR 0x27] @ '', '' @ [CHR 0x27] @ ''switch'' @ [CHR 0x27]
        @ '', etc. to narrow results.'',
      func = (\<lambda>net arg. list_states_for_tool net self arg),
      args_schema = ToolSchema\<rparr>"

section \<open>Predicates of the claims\<close>

text \<open>
  An item the comprehension can test without an exception: a dictionary whose
  \<^verbatim>\<open>entity_id\<close> is absent or a string.
\<close>

fun is_state_object :: "'f pyval \<Rightarrow> bool" where
  "is_state_object (PDict kvs) =
     (case map_of kvs ''entity_id'' of None \<Rightarrow> True | Some (PStr _) \<Rightarrow> True | Some _ \<Rightarrow> False)"
| "is_state_object _ = False"

text \<open>An item whose \<^verbatim>\<open>entity_id\<close> is present, a string, and starts with the domain and a dot.\<close>

fun in_domain :: "string \<Rightarrow> 'f pyval \<Rightarrow> bool" where
  "in_domain d (PDict kvs) =
     (case map_of kvs ''entity_id'' of Some (PStr s) \<Rightarrow> prefix (d @ ''.'') s | _ \<Rightarrow> False)"
| "in_domain d _ = False"

section \<open>Connector registry and input validation\<close>

text \<open>
  Modelled from the spec: the error taxonomy of the connector layer (sections 4.1, 4.2
  and 7). The source declares no such errors.
\<close>

datatype connector_error =
    DuplicateIdentifier string
  | UnknownConnector string
  | MissingField string

text \<open>
  Modelled from the spec: ConnectorSpec and ConnectorRegistry (section 3) with
  \<^verbatim>\<open>register\<close> and \<^verbatim>\<open>resolve\<close> (section 4.1). The source has only the static export
  list of \<^verbatim>\<open>languagemodels/__init__.py\<close>; the registry operations are missing from it.
  The registry is an association list in registration order (stable enumeration).
\<close>

datatype field_kind = Secret | String | Enum

record config_field =
  config_name :: string
  kind :: field_kind
  config_required :: bool

record connector_spec =
  connector_id :: string
  spec_display_name :: string
  config_fields :: "config_field list"

type_synonym 'fac registry = "(string \<times> connector_spec \<times> 'fac) list"

definition register ::
  "connector_spec \<Rightarrow> 'fac \<Rightarrow> 'fac registry \<Rightarrow> connector_error + 'fac registry" where
  "register spec factory reg =
     (if connector_id spec \<in> set (map fst reg) then Inl (DuplicateIdentifier (connector_id spec))
      else Inr (reg @ [(connector_id spec, spec, factory)]))"

definition resolve :: "string \<Rightarrow> 'fac registry \<Rightarrow> connector_error + 'fac" where
  "resolve ident reg =
     (case map_of reg ident of
        None \<Rightarrow> Inl (UnknownConnector ident)
      | Some (spec, factory) \<Rightarrow> Inr factory)"

text \<open>The registration phase: the registrations in order, the first failure ends it.\<close>

fun register_all ::
  "(connector_spec \<times> 'fac) list \<Rightarrow> 'fac registry \<Rightarrow> connector_error + 'fac registry" where
  "register_all [] reg = Inr reg"
| "register_all ((spec, factory) # rest) reg =
     (case register spec factory reg of
        Inl e \<Rightarrow> Inl e
      | Inr reg' \<Rightarrow> register_all rest reg')"

text \<open>\<^verbatim>\<open>__all__\<close> of \<^verbatim>\<open>languagemodels/__init__.py\<close> (lines 25 to 49).\<close>

definition languagemodels_all :: "string list" where
  "languagemodels_all =
     [''AIMLModelComponent'', ''AnthropicModelComponent'', ''AzureChatOpenAIComponent'',
      ''ChatOllamaComponent'', ''ChatVertexAIComponent'', ''CohereComponent'',
      ''DeepSeekModelComponent'', ''GoogleGenerativeAIComponent'', ''GroqModel'',
      ''HuggingFaceEndpointsComponent'', ''LMStudioModelComponent'', ''MaritalkModelComponent'',
      ''MistralAIModelComponent'', ''NVIDIAModelComponent'', ''NovitaModelComponent'',
      ''OpenAIModelComponent'', ''OpenRouterComponent'', ''PerplexityComponent'',
      ''QianfanChatEndpointComponent'', ''SambaNovaComponent'', ''SwamaModelComponent'',
      ''WatsonxAIComponent'', ''XAIModelComponent'']"

text \<open>
  The registrations that the export list stands for: one connector per exported class,
  under its name, the class itself (here its name) as the factory.
\<close>

definition model_registrations :: "(connector_spec \<times> string) list" where
  "model_registrations =
     map (\<lambda>n. (\<lparr>connector_id = n, spec_display_name = n, config_fields = []\<rparr>, n))
       languagemodels_all"

text \<open>
  Modelled from the spec: \<^verbatim>\<open>invoke\<close> of the client adapter (section 4.2), the input
  validation that the host framework runs before \<^verbatim>\<open>run_model\<close> and that is missing from
  the source. A request maps the names of declared fields to values; a required field
  of \<open>inputs\<close> that the request leaves out fails with \<open>MissingField\<close> before anything
  else happens; other names in the request are ignored.
\<close>

definition missing_fields :: "input list \<Rightarrow> (string \<rightharpoonup> string) \<Rightarrow> string list" where
  "missing_fields decls request =
     map (\<lambda>i. name (attrs i))
       (filter (\<lambda>i. required (attrs i) \<and> request (name (attrs i)) = None) decls)"

definition invoke ::
  "'f network \<Rightarrow> ('f pyval \<Rightarrow> exn + string) \<Rightarrow> (string \<rightharpoonup> string)
     \<Rightarrow> (connector_error + (exn + 'f Data)) \<times> http_request list" where
  "invoke net json_dumps request =
     (case missing_fields inputs request of
        f # _ \<Rightarrow> (Inl (MissingField f), [])
      | [] \<Rightarrow>
          (case run_model net json_dumps
                  \<lparr>ha_token = (case request ''ha_token'' of Some v \<Rightarrow> v | None \<Rightarrow> ''''),
                   base_url = (case request ''base_url'' of Some v \<Rightarrow> v | None \<Rightarrow> ''''),
                   filter_domain = request ''filter_domain''\<rparr> of
             (r, trace) \<Rightarrow> (Inr r, trace)))"

section \<open>Example data\<close>

text \<open>The end-to-end example of the specification (section 8), used at concrete inputs.\<close>

definition kitchen :: "unit pyval" where
  "kitchen = PDict [(''entity_id'', PStr ''light.kitchen''), (''state'', PStr ''on'')]"

definition temp :: "unit pyval" where
  "temp = PDict [(''entity_id'', PStr ''sensor.temp''), (''state'', PStr ''21'')]"

definition hall :: "unit pyval" where
  "hall = PDict [(''entity_id'', PStr ''light.hall''), (''state'', PStr ''off'')]"

definition unnamed :: "unit pyval" where
  "unnamed = PDict [(''state'', PStr ''unknown'')]"

definition ok_response :: "unit pyval \<Rightarrow> unit response" where
  "ok_response body =
     \<lparr>status_code = 200, reason = ''OK'',
      response_url = ''http://ha.local:8123/api/states'', json = Inr body\<rparr>"

definition ha :: component where
  "ha = \<lparr>ha_token = ''secret'', base_url = ''http://ha.local:8123'', filter_domain = Some ''light''\<rparr>"

definition text_lines :: "string list \<Rightarrow> string" where
  "text_lines ls = concat (map (\<lambda>l. l @ [CHR 0x0A]) (butlast ls)) @ last ls"

definition kitchen_text :: string where
  \<open>kitchen_text =
     text_lines [''{'', ''  "result": ['', ''    {'', ''      "entity_id": "light.kitchen",'',
                 ''      "state": "on"'', ''    }'', ''  ]'', ''}'']\<close>

definition all_text :: string where
  \<open>all_text =
     text_lines [''{'', ''  "result": ['', ''    {'', ''      "entity_id": "light.kitchen",'',
                 ''      "state": "on"'', ''    },'', ''    {'',
                 ''      "entity_id": "sensor.temp",'', ''      "state": "21"'', ''    }'',
                 ''  ]'', ''}'']\<close>

text \<open>
  What \<^verbatim>\<open>json.dumps(_, indent=2, ensure_ascii=False)\<close> and \<^verbatim>\<open>json.loads\<close> do on the two
  payloads of the example, as a finite table.
\<close>

definition example_dumps :: "unit pyval \<Rightarrow> exn + string" where
  "example_dumps v =
     (if v = PDict [(''result'', PList [kitchen])] then Inr kitchen_text
      else if v = PDict [(''result'', PList [kitchen, temp])] then Inr all_text
      else Inl (OtherException ''not in the table''))"







section \<open>Auxiliary facts\<close>

subsection \<open>The request trace and the handlers\<close>

lemma snd_list_states_try: "snd (list_states_try net t b f) = [states_request t b]"
  by (simp add: list_states_try_def)

lemma list_states_unfold:
  "list_states net t b f =
     (case fst (list_states_try net t b f) of
        Inl (RequestException e) \<Rightarrow> Inr (PStr (''Error: Failed to fetch states. '' @ e))
      | Inl (OtherException e) \<Rightarrow> Inr (PStr (''An unexpected error occurred: '' @ e))
      | Inr v \<Rightarrow> Inr v,
      [states_request t b])"
  unfolding list_states_def
  by (cases "list_states_try net t b f")
     (use snd_list_states_try [of net t b f] in \<open>auto split: sum.splits exn.splits\<close>)

lemma run_model_unfold:
  "run_model net json_dumps self =
     (case fst (list_states net (ha_token self) (base_url self) (or_empty (filter_domain self))) of
        Inl e \<Rightarrow> Inl e
      | Inr result \<Rightarrow> make_data_response json_dumps result,
      [states_request (ha_token self) (base_url self)])"
  unfolding run_model_def
  by (simp add: list_states_unfold split: sum.splits exn.splits)

lemma or_empty_simps [simp]:
  "or_empty None = []" "or_empty (Some s) = s"
  by (simp_all add: or_empty_def)

subsection \<open>The paths through the body of the try\<close>

lemma fst_list_states_try_raise:
  "net (states_request t b) = Inl e \<Longrightarrow> fst (list_states_try net t b f) = Inl e"
  by (simp add: list_states_try_def)

lemma fst_list_states_try_status:
  "net (states_request t b) = Inr r \<Longrightarrow> raise_for_status r = Some e
     \<Longrightarrow> fst (list_states_try net t b f) = Inl e"
  by (simp add: list_states_try_def)


lemma fst_list_states_try_filter:
  "net (states_request t b) = Inr r \<Longrightarrow> raise_for_status r = None \<Longrightarrow> json r = Inr (PList xs)
     \<Longrightarrow> d \<noteq> []
     \<Longrightarrow> fst (list_states_try net t b d) =
           (case filter_states d xs of Inl e \<Rightarrow> Inl e | Inr ys \<Rightarrow> Inr (PList ys))"
  by (simp add: list_states_try_def)

lemma raise_for_status_error:
  "400 \<le> status_code r \<Longrightarrow> status_code r < 600
     \<Longrightarrow> \<exists>m. raise_for_status r = Some (RequestException m)"
  by (simp add: raise_for_status_def)

lemma raise_for_status_2xx:
  "200 \<le> status_code r \<Longrightarrow> status_code r < 300 \<Longrightarrow> raise_for_status r = None"
  by (simp add: raise_for_status_def)

subsection \<open>The formatter\<close>

lemma make_data_response_returns: "\<exists>d. make_data_response json_dumps result = Inr d"
  by (simp add: make_data_response_def split: sum.splits)

lemma make_data_response_str:
  "make_data_response json_dumps (PStr s) = Inr \<lparr>data = [], text = s\<rparr>"
  by (simp add: make_data_response_def make_data_response_try_def)

lemma make_data_response_list:
  "json_dumps (PDict [(''result'', PList xs)]) = Inr s
     \<Longrightarrow> make_data_response json_dumps (PList xs)
           = Inr \<lparr>data = [(''result'', PList xs)], text = s\<rparr>"
  by (simp add: make_data_response_def make_data_response_try_def)


subsection \<open>The comprehension\<close>

lemma keep_state_ok: "is_state_object st \<Longrightarrow> keep_state d st = Inr (in_domain d st)"
  by (cases st) (auto simp: keep_state_def dict_get_def split: option.splits pyval.splits)

lemma keep_state_bad: "\<not> is_state_object st \<Longrightarrow> \<exists>m. keep_state d st = Inl (OtherException m)"
  by (cases st)
     (auto simp: keep_state_def dict_get_def attribute_error_def split: option.splits pyval.splits)

lemma filter_states_ok:
  "list_all is_state_object xs \<Longrightarrow> filter_states d xs = Inr (filter (in_domain d) xs)"
  by (induction xs) (simp_all add: keep_state_ok)

lemma filter_states_bad:
  "\<not> list_all is_state_object xs \<Longrightarrow> \<exists>m. filter_states d xs = Inl (OtherException m)"
proof (induction xs)
  case Nil
  then show ?case by simp
next
  case (Cons x xs)
  show ?case
  proof (cases "is_state_object x")
    case True
    with Cons.prems have "\<not> list_all is_state_object xs" by simp
    with Cons.IH obtain m where "filter_states d xs = Inl (OtherException m)" by blast
    with True show ?thesis by (simp add: keep_state_ok)
  next
    case False
    then obtain m where "keep_state d x = Inl (OtherException m)"
      using keep_state_bad by blast
    then show ?thesis by simp
  qed
qed

lemma in_domain_entity_id:
  "in_domain d y
     \<Longrightarrow> \<exists>kvs s. y = PDict kvs \<and> map_of kvs ''entity_id'' = Some (PStr s) \<and> prefix (d @ ''.'') s"
  by (cases y) (auto split: option.splits pyval.splits)

subsection \<open>The example data\<close>

lemma ok_request [simp]:
  "raise_for_status (ok_response body) = None" "json (ok_response body) = Inr body"
  by (simp_all add: ok_response_def raise_for_status_def)

lemma example_in_domain [simp]:
  "in_domain ''light'' kitchen" "\<not> in_domain ''light'' temp"
  "in_domain ''light'' hall" "\<not> in_domain ''light'' unnamed"
  by (simp_all add: kitchen_def temp_def hall_def unnamed_def)

lemma example_objects [simp]:
  "is_state_object kitchen" "is_state_object temp" "is_state_object hall" "is_state_object unnamed"
  by (simp_all add: kitchen_def temp_def hall_def unnamed_def)

section \<open>The filter (C1, C2, C10)\<close>

text \<open>
  C1, amended. For every configuration and every non-empty \<open>filter_domain\<close> \<open>d\<close>, when the
  upstream call succeeds with a JSON list whose items are all objects with an
  \<^verbatim>\<open>entity_id\<close> that is absent or a string, the narrowed tool call with the filter \<open>d\<close>
  returns the list \<open>ys\<close> of the upstream items whose \<^verbatim>\<open>entity_id\<close> starts with \<open>d\<close> and a
  dot, and \<^verbatim>\<open>run_model\<close>, configured with \<open>d\<close>, returns the payload \<^verbatim>\<open>{"result": ys}\<close> as soon as \<^verbatim>\<open>json.dumps\<close> renders
  it; every item of \<open>ys\<close> has an \<^verbatim>\<open>entity_id\<close> with that prefix and occurs in the
  upstream list.
\<close>

theorem filter_returns_domain_subset:
  assumes "d \<noteq> []"
    and "net (states_request (ha_token self) (base_url self)) = Inr r"
    and "raise_for_status r = None"
    and "json r = Inr (PList xs)"
    and "list_all is_state_object xs"
  shows "\<exists>ys. ys = filter (in_domain d) xs
            \<and> fst (list_states_for_tool net self (Some d)) = Inr (PList ys)
            \<and> (\<forall>s. filter_domain self = Some d
                    \<longrightarrow> json_dumps (PDict [(''result'', PList ys)]) = Inr s
                    \<longrightarrow> fst (run_model net json_dumps self)
                          = Inr \<lparr>data = [(''result'', PList ys)], text = s\<rparr>)
            \<and> (\<forall>y\<in>set ys. \<exists>kvs s. y = PDict kvs \<and> map_of kvs ''entity_id'' = Some (PStr s)
                              \<and> prefix (d @ ''.'') s)
            \<and> set ys \<subseteq> set xs"
proof -
  let ?ys = "filter (in_domain d) xs"
  have body: "fst (list_states_try net (ha_token self) (base_url self) d) = Inr (PList ?ys)"
    using assms by (simp add: fst_list_states_try_filter filter_states_ok)
  from body have ls: "fst (list_states net (ha_token self) (base_url self) d) = Inr (PList ?ys)"
    by (simp add: list_states_unfold)
  then have tool: "fst (list_states_for_tool net self (Some d)) = Inr (PList ?ys)"
    by (simp add: list_states_for_tool_def)
  have items: "\<forall>y\<in>set ?ys. \<exists>kvs s. y = PDict kvs \<and> map_of kvs ''entity_id'' = Some (PStr s)
                              \<and> prefix (d @ ''.'') s"
    using in_domain_entity_id by auto
  have run: "\<forall>s. filter_domain self = Some d
                \<longrightarrow> json_dumps (PDict [(''result'', PList ?ys)]) = Inr s
                \<longrightarrow> fst (run_model net json_dumps self)
                      = Inr \<lparr>data = [(''result'', PList ?ys)], text = s\<rparr>"
    using ls by (simp add: run_model_unfold make_data_response_list)
  from tool items run show ?thesis by auto
qed

text \<open>The end-to-end example of the specification: the filter \<^verbatim>\<open>light\<close> keeps the kitchen light.\<close>

theorem filter_returns_domain_subset_witness:
  "fst (list_states_for_tool (\<lambda>_. Inr (ok_response (PList [kitchen, temp]))) ha (Some ''light''))
     = Inr (PList [kitchen])
   \<and> fst (run_model (\<lambda>_. Inr (ok_response (PList [kitchen, temp]))) example_dumps ha)
     = Inr \<lparr>data = [(''result'', PList [kitchen])], text = kitchen_text\<rparr>"
proof -
  have d: "example_dumps (PDict [(''result'', PList [kitchen])]) = Inr kitchen_text"
    by (simp add: example_dumps_def)
  have f: "filter_domain ha = Some ''light''"
    by (simp add: ha_def)
  show ?thesis
    using filter_returns_domain_subset [of "''light''" "\<lambda>_. Inr (ok_response (PList [kitchen, temp]))"
        ha "ok_response (PList [kitchen, temp])" "[kitchen, temp]" example_dumps] d f
    by simp
qed

text \<open>
  C1 as stated fails on a JSON list with an item that is no object: on the upstream list
  \<^verbatim>\<open>[1]\<close> and the filter \<^verbatim>\<open>light\<close> the comprehension raises \<^verbatim>\<open>AttributeError\<close>, the second
  handler turns it into a string, and no list is returned.
\<close>

theorem filter_on_any_list_counterexample:
  "fst (list_states_for_tool (\<lambda>_. Inr (ok_response (PList [PInt 1]))) ha (Some ''light''))
     = Inr (PStr (''An unexpected error occurred: ''
                  @ exn_str (attribute_error (PInt 1 :: unit pyval) ''get'')))
   \<and> (\<nexists>ys. fst (list_states_for_tool (\<lambda>_. Inr (ok_response (PList [PInt 1]))) ha (Some ''light''))
              = Inr (PList ys))
   \<and> (\<exists>m. fst (run_model (\<lambda>_. Inr (ok_response (PList [PInt 1]))) example_dumps ha)
              = Inr \<lparr>data = [], text = m\<rparr>)"
  by (simp add: list_states_for_tool_def run_model_unfold list_states_unfold list_states_try_def
      keep_state_def attribute_error_def ha_def make_data_response_str)




text \<open>
  C10. With a non-empty \<open>filter_domain\<close> on an upstream JSON list, \<^verbatim>\<open>_list_states\<close>
  returns either the text of the second handler (exactly when some item is no object
  with an absent or string \<^verbatim>\<open>entity_id\<close>) or a list that is a subsequence of the
  upstream list, in upstream order, and holds no item that misses the key
  \<^verbatim>\<open>entity_id\<close>.
\<close>

theorem filter_keeps_upstream_order:
  assumes "d \<noteq> []"
    and "net (states_request t b) = Inr r"
    and "raise_for_status r = None"
    and "json r = Inr (PList xs)"
  shows "(\<exists>m. fst (list_states net t b d) = Inr (PStr (''An unexpected error occurred: '' @ m))
              \<and> \<not> list_all is_state_object xs)
       \<or> (\<exists>ys. fst (list_states net t b d) = Inr (PList ys)
              \<and> list_all is_state_object xs
              \<and> subseq ys xs
              \<and> (\<forall>kvs. map_of kvs ''entity_id'' = None \<longrightarrow> PDict kvs \<notin> set ys))"
proof (cases "list_all is_state_object xs")
  case True
  let ?ys = "filter (in_domain d) xs"
  have "fst (list_states_try net t b d) = Inr (PList ?ys)"
    using assms True by (simp add: fst_list_states_try_filter filter_states_ok)
  then have "fst (list_states net t b d) = Inr (PList ?ys)"
    by (simp add: list_states_unfold)
  moreover have "subseq ?ys xs"
    by simp
  moreover have "\<forall>kvs. map_of kvs ''entity_id'' = None \<longrightarrow> PDict kvs \<notin> set ?ys"
    by simp
  ultimately show ?thesis
    using True by blast
next
  case False
  then obtain m where "filter_states d xs = Inl (OtherException m)"
    using filter_states_bad by blast
  then have "fst (list_states_try net t b d) = Inl (OtherException m)"
    using assms by (simp add: fst_list_states_try_filter)
  then have "fst (list_states net t b d) = Inr (PStr (''An unexpected error occurred: '' @ m))"
    by (simp add: list_states_unfold)
  with False show ?thesis by blast
qed

text \<open>An upstream list with an item that has no \<^verbatim>\<open>entity_id\<close>: it is dropped, the order kept.\<close>

theorem filter_keeps_upstream_order_witness:
  "\<exists>ys. fst (list_states (\<lambda>_. Inr (ok_response (PList [kitchen, unnamed, temp, hall])))
               ''secret'' ''http://ha.local:8123'' ''light'')
          = Inr (PList ys)
        \<and> subseq ys [kitchen, unnamed, temp, hall]
        \<and> unnamed \<notin> set ys"
proof -
  have "list_all is_state_object [kitchen, unnamed, temp, hall]"
    by simp
  moreover have "map_of [(''state'', PStr ''unknown'' :: unit pyval)] ''entity_id'' = None"
    by simp
  ultimately show ?thesis
    using filter_keeps_upstream_order [of "''light''"
        "\<lambda>_. Inr (ok_response (PList [kitchen, unnamed, temp, hall]))"
        "''secret''" "''http://ha.local:8123''"
        "ok_response (PList [kitchen, unnamed, temp, hall])" "[kitchen, unnamed, temp, hall]"]
    unfolding unnamed_def by auto
qed

section \<open>Failures (C3, C4)\<close>

text \<open>
  C3, amended. When \<^verbatim>\<open>requests.get\<close> raises a \<^verbatim>\<open>RequestException\<close> with the text \<open>m\<close>
  (connection error, timeout), and when the response has a status from 400 to 599, for
  which \<^verbatim>\<open>raise_for_status\<close> raises an \<^verbatim>\<open>HTTPError\<close> with the text \<open>m\<close>, \<^verbatim>\<open>run_model\<close>
  raises nothing and returns an envelope with the empty payload and the text
  \<^verbatim>\<open>Error: Failed to fetch states.\<close> followed by \<open>m\<close>, which begins with \<^verbatim>\<open>Error:\<close>.
\<close>

theorem transport_failure_gives_error_envelope:
  "(\<forall>m. net (states_request (ha_token self) (base_url self)) = Inl (RequestException m)
        \<longrightarrow> fst (run_model net json_dumps self)
              = Inr \<lparr>data = [], text = ''Error: Failed to fetch states. '' @ m\<rparr>
            \<and> prefix ''Error:'' (''Error: Failed to fetch states. '' @ m))
   \<and> (\<forall>r. net (states_request (ha_token self) (base_url self)) = Inr r
            \<and> 400 \<le> status_code r \<and> status_code r < 600
        \<longrightarrow> (\<exists>m. raise_for_status r = Some (RequestException m)
                \<and> m = str_nat (status_code r)
                      @ (if status_code r < 500 then '' Client Error: '' else '' Server Error: '')
                      @ reason r @ '' for url: '' @ response_url r
                \<and> fst (run_model net json_dumps self)
                    = Inr \<lparr>data = [], text = ''Error: Failed to fetch states. '' @ m\<rparr>
                \<and> prefix ''Error:'' (''Error: Failed to fetch states. '' @ m)))"
proof (intro conjI allI impI)
  fix m
  assume "net (states_request (ha_token self) (base_url self)) = Inl (RequestException m)"
  then have "fst (list_states_try net (ha_token self) (base_url self)
                    (or_empty (filter_domain self))) = Inl (RequestException m)"
    by (rule fst_list_states_try_raise)
  then show "fst (run_model net json_dumps self)
               = Inr \<lparr>data = [], text = ''Error: Failed to fetch states. '' @ m\<rparr>"
    by (simp add: run_model_unfold list_states_unfold make_data_response_str)
next
  fix m :: string
  show "prefix ''Error:'' (''Error: Failed to fetch states. '' @ m)"
    by simp
next
  fix r
  assume a: "net (states_request (ha_token self) (base_url self)) = Inr r
             \<and> 400 \<le> status_code r \<and> status_code r < 600"
  let ?m = "str_nat (status_code r)
            @ (if status_code r < 500 then '' Client Error: '' else '' Server Error: '')
            @ reason r @ '' for url: '' @ response_url r"
  from a have s: "raise_for_status r = Some (RequestException ?m)"
    by (simp add: raise_for_status_def)
  with a have "fst (list_states_try net (ha_token self) (base_url self)
                      (or_empty (filter_domain self))) = Inl (RequestException ?m)"
    by (simp add: fst_list_states_try_status)
  then have "fst (run_model net json_dumps self)
               = Inr \<lparr>data = [], text = ''Error: Failed to fetch states. '' @ ?m\<rparr>"
    by (simp add: run_model_unfold list_states_unfold make_data_response_str)
  with s show "\<exists>m. raise_for_status r = Some (RequestException m)
                \<and> m = str_nat (status_code r)
                      @ (if status_code r < 500 then '' Client Error: '' else '' Server Error: '')
                      @ reason r @ '' for url: '' @ response_url r
                \<and> fst (run_model net json_dumps self)
                    = Inr \<lparr>data = [], text = ''Error: Failed to fetch states. '' @ m\<rparr>
                \<and> prefix ''Error:'' (''Error: Failed to fetch states. '' @ m)"
    by simp
qed

text \<open>A refused connection and a 500 response.\<close>

lemma str_nat_500: "str_nat 500 = ''500''"
  by code_simp

theorem transport_failure_gives_error_envelope_witness:
  "fst (run_model (\<lambda>_. Inl (RequestException ''Connection refused'')) example_dumps ha)
     = Inr \<lparr>data = [], text = ''Error: Failed to fetch states. Connection refused''\<rparr>
   \<and> fst (run_model
            (\<lambda>_. Inr ((ok_response PNone)\<lparr>status_code := 500,
                                            reason := ''Internal Server Error''\<rparr>))
            example_dumps ha)
     = Inr \<lparr>data = [],
            text = ''Error: Failed to fetch states. 500 Server Error: Internal Server Error for url: http://ha.local:8123/api/states''\<rparr>"
  using transport_failure_gives_error_envelope
          [of "\<lambda>_. Inl (RequestException ''Connection refused'')" ha example_dumps]
        transport_failure_gives_error_envelope
          [of "\<lambda>_. Inr ((ok_response PNone)\<lparr>status_code := 500,
                                              reason := ''Internal Server Error''\<rparr>)"
              ha example_dumps]
  by (simp add: str_nat_500 ok_response_def)

text \<open>
  C3 as stated fails for a status that is neither 2xx nor an error for
  \<^verbatim>\<open>raise_for_status\<close>: a 300 response with a JSON list as its body is treated as a success.
\<close>

theorem non_2xx_status_counterexample:
  "fst (run_model
         (\<lambda>_. Inr ((ok_response (PList [kitchen, temp]))\<lparr>status_code := 300,
                                                          reason := ''Multiple Choices''\<rparr>))
         example_dumps (ha\<lparr>filter_domain := None\<rparr>))
     = Inr \<lparr>data = [(''result'', PList [kitchen, temp])], text = all_text\<rparr>
   \<and> \<not> prefix ''Error:'' all_text"
  by (simp add: run_model_unfold list_states_unfold list_states_try_def raise_for_status_def
      ok_response_def make_data_response_list example_dumps_def all_text_def text_lines_def
      kitchen_def temp_def)

text \<open>
  C4, amended. \<^verbatim>\<open>run_model\<close> never raises: it always returns an envelope. An exception
  raised in the body of the \<^verbatim>\<open>try\<close> of \<^verbatim>\<open>_list_states\<close> gives the empty payload; the text
  is \<^verbatim>\<open>Error: Failed to fetch states.\<close> and the text of the exception for a
  \<^verbatim>\<open>RequestException\<close>, and \<^verbatim>\<open>An unexpected error occurred:\<close> and the text of the
  exception for any other exception.
\<close>

theorem every_failure_ends_in_an_envelope:
  "(\<exists>d. fst (run_model net json_dumps self) = Inr d)
   \<and> (\<forall>m. fst (list_states_try net (ha_token self) (base_url self)
                 (or_empty (filter_domain self))) = Inl (RequestException m)
          \<longrightarrow> fst (run_model net json_dumps self)
                = Inr \<lparr>data = [], text = ''Error: Failed to fetch states. '' @ m\<rparr>)
   \<and> (\<forall>m. fst (list_states_try net (ha_token self) (base_url self)
                 (or_empty (filter_domain self))) = Inl (OtherException m)
          \<longrightarrow> fst (run_model net json_dumps self)
                = Inr \<lparr>data = [], text = ''An unexpected error occurred: '' @ m\<rparr>)"
proof -
  have "\<exists>d. fst (run_model net json_dumps self) = Inr d"
    using make_data_response_returns [of json_dumps]
    by (simp add: run_model_unfold list_states_unfold split: sum.splits exn.splits)
  then show ?thesis
    by (simp add: run_model_unfold list_states_unfold make_data_response_str)
qed

theorem every_failure_ends_in_an_envelope_witness:
  "fst (run_model (\<lambda>_. Inl (RequestException ''Connection refused'')) example_dumps ha)
     = Inr \<lparr>data = [], text = ''Error: Failed to fetch states. Connection refused''\<rparr>
   \<and> fst (run_model (\<lambda>_. Inl (OtherException ''boom'')) example_dumps ha)
     = Inr \<lparr>data = [], text = ''An unexpected error occurred: boom''\<rparr>"
proof -
  have "fst (list_states_try (\<lambda>_. Inl (RequestException ''Connection refused''))
               (ha_token ha) (base_url ha) (or_empty (filter_domain ha)) :: (exn + unit pyval) \<times> _)
          = Inl (RequestException ''Connection refused'')"
    by (simp add: fst_list_states_try_raise)
  moreover have "fst (list_states_try (\<lambda>_. Inl (OtherException ''boom''))
               (ha_token ha) (base_url ha) (or_empty (filter_domain ha)) :: (exn + unit pyval) \<times> _)
          = Inl (OtherException ''boom'')"
    by (simp add: fst_list_states_try_raise)
  ultimately show ?thesis
    using every_failure_ends_in_an_envelope
            [of "\<lambda>_. Inl (RequestException ''Connection refused'')" example_dumps ha]
          every_failure_ends_in_an_envelope
            [of "\<lambda>_. Inl (OtherException ''boom'')" example_dumps ha]
    by simp
qed

text \<open>
  C4 as stated fails on the text: an exception that is no \<^verbatim>\<open>RequestException\<close> gives a
  text that does not begin with \<^verbatim>\<open>Error:\<close>. Here the \<^verbatim>\<open>AttributeError\<close> of the
  comprehension on the upstream list \<^verbatim>\<open>[1]\<close>.
\<close>

theorem unexpected_exception_text_counterexample:
  "fst (run_model (\<lambda>_. Inr (ok_response (PList [PInt 1]))) example_dumps ha)
     = Inr \<lparr>data = [],
            text = ''An unexpected error occurred: ''
                   @ exn_str (attribute_error (PInt 1 :: unit pyval) ''get'')\<rparr>
   \<and> \<not> prefix ''Error:'' (''An unexpected error occurred: ''
                           @ exn_str (attribute_error (PInt 1 :: unit pyval) ''get''))"
  by (simp add: run_model_unfold list_states_unfold list_states_try_def
      keep_state_def attribute_error_def ha_def make_data_response_str)

section \<open>The formatter (C5)\<close>







section \<open>The request and the two surfaces (C6, C7)\<close>

text \<open>
  C6. Whatever the network does and whatever the filter is, \<^verbatim>\<open>run_model\<close> and the narrowed
  tool call hand exactly one request to \<^verbatim>\<open>requests.get\<close>: a GET of \<^verbatim>\<open>base_url\<close> followed by
  \<^verbatim>\<open>/api/states\<close>, with the headers \<^verbatim>\<open>Authorization: Bearer\<close> and the token and
  \<^verbatim>\<open>Content-Type: application/json\<close>, and the timeout 10. A failure does not lead to a
  second request.
\<close>

theorem exactly_one_get_request:
  "snd (run_model net json_dumps self)
     = [\<lparr>verb = GET, url = base_url self @ ''/api/states'',
         headers = [(''Authorization'', ''Bearer '' @ ha_token self),
                    (''Content-Type'', ''application/json'')],
         timeout = 10\<rparr>]
   \<and> snd (list_states_for_tool net self arg)
     = [\<lparr>verb = GET, url = base_url self @ ''/api/states'',
         headers = [(''Authorization'', ''Bearer '' @ ha_token self),
                    (''Content-Type'', ''application/json'')],
         timeout = 10\<rparr>]"
  by (simp add: run_model_unfold list_states_for_tool_def list_states_unfold states_request_def)

text \<open>
  C7. The function of the tool that \<^verbatim>\<open>build_tool\<close> returns is \<^verbatim>\<open>_list_states\<close> applied to
  the token and the URL of the component and to the filter the agent passes (the empty
  string when it passes none): the same result and the same request. The schema of the
  tool has the one field \<^verbatim>\<open>filter_domain\<close>, so neither \<^verbatim>\<open>ha_token\<close> nor \<^verbatim>\<open>base_url\<close>
  is in it.
\<close>

theorem tool_is_list_states_with_bound_secrets:
  "func (build_tool self) net (Some f) = list_states net (ha_token self) (base_url self) f
   \<and> func (build_tool self) net None = list_states net (ha_token self) (base_url self) ''''
   \<and> map field_name (args_schema (build_tool self)) = [''filter_domain'']
   \<and> ''ha_token'' \<notin> set (map field_name (args_schema (build_tool self)))
   \<and> ''base_url'' \<notin> set (map field_name (args_schema (build_tool self)))"
  by (simp add: build_tool_def list_states_for_tool_def ToolSchema_def)

section \<open>Registry and validation (C8, C9)\<close>

lemma register_all_keys:
  "register_all regs reg0 = Inr reg
     \<Longrightarrow> map fst reg = map fst reg0 @ map (\<lambda>sf. connector_id (fst sf)) regs"
proof (induction regs arbitrary: reg0)
  case Nil
  then show ?case by simp
next
  case (Cons sf regs)
  obtain spec factory where sf: "sf = (spec, factory)"
    by (cases sf)
  from Cons.prems sf obtain reg' where
    r: "register spec factory reg0 = Inr reg'" and rest: "register_all regs reg' = Inr reg"
    by (auto split: sum.splits)
  from r have "map fst reg' = map fst reg0 @ [connector_id spec]"
    by (auto simp: register_def split: if_splits)
  with Cons.IH [OF rest] sf show ?case
    by simp
qed

lemma register_all_distinct:
  "distinct (map fst reg0 @ map (\<lambda>sf. connector_id (fst sf)) regs)
     \<Longrightarrow> \<exists>reg. register_all regs reg0 = Inr reg"
proof (induction regs arbitrary: reg0)
  case Nil
  then show ?case by simp
next
  case (Cons sf regs)
  obtain spec factory where sf: "sf = (spec, factory)"
    by (cases sf)
  from Cons.prems sf have new: "connector_id spec \<notin> set (map fst reg0)"
    by auto
  then have r: "register spec factory reg0 = Inr (reg0 @ [(connector_id spec, spec, factory)])"
    by (simp add: register_def)
  from Cons.prems sf
  have "distinct (map fst (reg0 @ [(connector_id spec, spec, factory)])
                  @ map (\<lambda>sf. connector_id (fst sf)) regs)"
    by auto
  from Cons.IH [OF this] r sf show ?case
    by simp
qed

lemma resolve_unknown: "ident \<notin> set (map fst reg) \<Longrightarrow> resolve ident reg = Inl (UnknownConnector ident)"
proof -
  assume "ident \<notin> set (map fst reg)"
  then have "map_of reg ident = None"
    by (simp add: map_of_eq_None_iff)
  then show ?thesis
    by (simp add: resolve_def)
qed

text \<open>
  C8. After a registration phase that succeeded, registering a factory under an identifier
  that one of the registrations used fails with \<open>DuplicateIdentifier\<close>, and
  resolving an identifier that none of them used fails with \<open>UnknownConnector\<close>.
\<close>

theorem registry_contract:
  assumes "register_all regs [] = Inr reg"
  shows "(\<forall>spec factory. connector_id spec \<in> set (map (\<lambda>sf. connector_id (fst sf)) regs)
            \<longrightarrow> register spec factory reg = Inl (DuplicateIdentifier (connector_id spec)))
       \<and> (\<forall>ident. ident \<notin> set (map (\<lambda>sf. connector_id (fst sf)) regs)
            \<longrightarrow> resolve ident reg = Inl (UnknownConnector ident))"
proof -
  have keys: "map fst reg = map (\<lambda>sf. connector_id (fst sf)) regs"
    using register_all_keys [OF assms] by simp
  show ?thesis
    using resolve_unknown [of _ reg] by (simp add: keys [symmetric] register_def)
qed

text \<open>The registry of the language model components, from the export list of the package.\<close>

theorem registry_contract_witness:
  "\<exists>reg. register_all model_registrations [] = Inr reg
        \<and> register \<lparr>connector_id = ''GroqModel'', spec_display_name = ''Groq again'',
                     config_fields = []\<rparr> ''AnotherGroqModel'' reg
            = Inl (DuplicateIdentifier ''GroqModel'')
        \<and> resolve ''ListHomeAssistantStates'' reg
            = Inl (UnknownConnector ''ListHomeAssistantStates'')"
proof -
  have ids: "map (\<lambda>sf. connector_id (fst sf)) model_registrations = languagemodels_all"
    by (simp add: model_registrations_def comp_def)
  have "distinct languagemodels_all"
    by (simp add: languagemodels_all_def)
  then obtain reg where reg: "register_all model_registrations [] = Inr reg"
    using register_all_distinct [of "[]" model_registrations] ids by auto
  have "''GroqModel'' \<in> set languagemodels_all"
       "''ListHomeAssistantStates'' \<notin> set languagemodels_all"
    by (simp_all add: languagemodels_all_def)
  with registry_contract [OF reg] ids reg show ?thesis
    by auto
qed

text \<open>
  C9. A request that leaves out the token or the base URL, the two inputs declared
  required, fails with \<open>MissingField\<close> for a field it leaves out, and no request is
  handed to \<^verbatim>\<open>requests.get\<close>.
\<close>

theorem missing_required_field_fails:
  assumes "request ''ha_token'' = None \<or> request ''base_url'' = None"
  shows "\<exists>f. invoke net json_dumps request = (Inl (MissingField f), [])
           \<and> (f = ''ha_token'' \<or> f = ''base_url'') \<and> request f = None"
  using assms by (auto simp: invoke_def missing_fields_def inputs_def)

theorem missing_required_field_fails_witness:
  "invoke (\<lambda>_. Inr (ok_response (PList [kitchen, temp]))) example_dumps
     [''base_url'' \<mapsto> ''http://ha.local:8123'', ''filter_domain'' \<mapsto> ''light'']
     = (Inl (MissingField ''ha_token''), [])"
  using missing_required_field_fails
          [of "[''base_url'' \<mapsto> ''http://ha.local:8123'', ''filter_domain'' \<mapsto> ''light'']"
              "\<lambda>_. Inr (ok_response (PList [kitchen, temp]))" example_dumps]
  by auto


end
